theory Spec2Isabelle
  imports Complex_Main "HOL-Library.Sublist"
begin

section \<open>Background rotation of the dove start page (themes/default/assets/app.js)\<close>

text \<open>
  The script file holds two variants of the same client script. Variant A is the first
  script (lines 1-335), variant B the second (lines 337-812). Both are modelled; a
  definition that belongs to one variant only carries the suffix \<open>_A\<close> or \<open>_B\<close>.
  JavaScript numbers are modelled by \<open>nat\<close>, \<open>int\<close> and \<open>real\<close>: rounding of IEEE
  doubles is not part of the model.
\<close>

subsection \<open>Numbers in template strings\<close>

definition digit_char :: "nat \<Rightarrow> char" where
  "digit_char d = ''0123456789'' ! d"

function string_of_nat :: "nat \<Rightarrow> string" where
  "string_of_nat n =
     (if n < 10 then [digit_char n] else string_of_nat (n div 10) @ [digit_char (n mod 10)])"
  by pat_completeness auto
termination
  by (relation "measure id") auto

declare string_of_nat.simps [simp del]

subsection \<open>Images and load results\<close>

text \<open>
  An image is opaque to the script except for what \<open>analyzeTone\<close> reads from it through
  a canvas: no 2d context, an exception while drawing or reading (a tainted canvas), or
  the RGBA bytes of \<open>getImageData\<close>.
\<close>

datatype canvas_read = NoContext | ReadThrows | ImageData "nat list"

datatype image = Image (sampled: canvas_read)

record load_result =
  img :: image
  url :: string

datatype load_error = AllProvidersFailed

subsection \<open>Provider registry: BG_PROVIDERS, FALLBACK_BG, vp, nextUrl (variant A)\<close>

text \<open>
  What one call of \<open>nextUrl\<close> followed by \<open>preloadImage\<close> reads from its surroundings:
  the window size, the clock, the random number of the second provider, and the outcome
  of the image load (\<open>None\<close> for \<open>onerror\<close>).
\<close>

record attempt_env =
  innerWidth :: nat
  innerHeight :: nat
  date_now :: nat
  random_sig :: nat
  response :: "image option"

definition BG_PROVIDERS_length :: nat where
  "BG_PROVIDERS_length = 2"

definition BG_PROVIDERS :: "nat \<Rightarrow> attempt_env \<Rightarrow> nat \<Rightarrow> nat \<Rightarrow> string" where
  "BG_PROVIDERS i e w h =
     (if i = 0 then
        ''https://picsum.photos/'' @ string_of_nat (max 1280 w) @ ''/'' @ string_of_nat (max 720 h)
          @ ''?random='' @ string_of_nat (date_now e)
      else
        ''https://source.unsplash.com/random/'' @ string_of_nat (max 1280 w) @ ''x''
          @ string_of_nat (max 720 h) @ ''?wallpapers,landscape&sig='' @ string_of_nat (random_sig e))"

text \<open>\<open>FALLBACK_BG\<close> is built once, when the script starts, from the clock at that time.\<close>

definition FALLBACK_BG :: "nat \<Rightarrow> string" where
  "FALLBACK_BG t0 = ''https://picsum.photos/1280/1264?random='' @ string_of_nat t0"

definition vp_A :: "attempt_env \<Rightarrow> nat \<times> nat" where
  "vp_A e = (max 800 (if innerWidth e = 0 then 800 else innerWidth e),
             max 600 (if innerHeight e = 0 then 600 else innerHeight e))"

definition nextUrl :: "attempt_env \<Rightarrow> nat \<Rightarrow> string \<times> nat" where
  "nextUrl e providerIdx =
     (let (w, h) = vp_A e;
          providerIdx = (providerIdx + 1) mod BG_PROVIDERS_length
      in (BG_PROVIDERS providerIdx e w h, providerIdx))"

subsection \<open>Retry and fallback: loadNextWithRetry (variant A)\<close>

text \<open>
  The result of one call: what the promise settles with, the URLs handed to
  \<open>preloadImage\<close> in order, and the provider cursor afterwards. The \<open>k\<close>-th call of
  \<open>preloadImage\<close> within the invocation reads \<open>world k\<close>.
\<close>

record retry_run =
  outcome :: "load_error + load_result"
  attempts :: "string list"
  cursor :: nat

function provider_loop ::
  "(nat \<Rightarrow> attempt_env) \<Rightarrow> nat \<Rightarrow> int \<Rightarrow> nat \<Rightarrow> nat \<Rightarrow> string list \<Rightarrow> retry_run" where
  "provider_loop world t0 tries providerIdx k tried =
     (if tries > 0 then
        (let tries = tries - 1;
             (u, providerIdx) = nextUrl (world k) providerIdx
         in case response (world k) of
              Some i \<Rightarrow> \<lparr>outcome = Inr \<lparr>img = i, url = u\<rparr>, attempts = tried @ [u], cursor = providerIdx\<rparr>
            | None \<Rightarrow> provider_loop world t0 tries providerIdx (Suc k) (tried @ [u]))
      else
        (case response (world k) of
           Some i \<Rightarrow> \<lparr>outcome = Inr \<lparr>img = i, url = FALLBACK_BG t0\<rparr>,
                      attempts = tried @ [FALLBACK_BG t0], cursor = providerIdx\<rparr>
         | None \<Rightarrow> \<lparr>outcome = Inl AllProvidersFailed,
                    attempts = tried @ [FALLBACK_BG t0], cursor = providerIdx\<rparr>))"
  by pat_completeness auto
termination
  by (relation "measure (\<lambda>(world, t0, tries, providerIdx, k, tried). nat tries)") auto

declare provider_loop.simps [simp del]

text \<open>
  \<open>maxTries\<close> is \<open>None\<close> when the caller passes nothing; \<open>maxTries || BG_PROVIDERS.length\<close>
  also replaces 0 by the number of providers.
\<close>

definition initial_tries :: "int option \<Rightarrow> int" where
  "initial_tries maxTries =
     max 1 (case maxTries of
              None \<Rightarrow> int BG_PROVIDERS_length
            | Some m \<Rightarrow> if m = 0 then int BG_PROVIDERS_length else m)"

definition loadNextWithRetry ::
  "(nat \<Rightarrow> attempt_env) \<Rightarrow> nat \<Rightarrow> nat \<Rightarrow> int option \<Rightarrow> retry_run" where
  "loadNextWithRetry world t0 providerIdx maxTries =
     (let tries = initial_tries maxTries
      in provider_loop world t0 tries providerIdx 0 [])"

text \<open>
  The URLs that \<open>n\<close> successive provider attempts ask for, starting with the cursor
  \<open>providerIdx\<close> at the \<open>k\<close>-th call of \<open>preloadImage\<close>; used to state what
  \<open>loadNextWithRetry\<close> attempted.
\<close>

fun provider_urls :: "(nat \<Rightarrow> attempt_env) \<Rightarrow> nat \<Rightarrow> nat \<Rightarrow> nat \<Rightarrow> string list" where
  "provider_urls world providerIdx k 0 = []"
| "provider_urls world providerIdx k (Suc n) =
     fst (nextUrl (world k) providerIdx)
       # provider_urls world (snd (nextUrl (world k) providerIdx)) (Suc k) n"

subsection \<open>Tone analysis: analyzeTone\<close>

datatype tone = Light | Dark

definition tone_name :: "tone \<Rightarrow> string" where
  "tone_name t = (case t of Light \<Rightarrow> ''light'' | Dark \<Rightarrow> ''dark'')"

text \<open>\<open>toLin\<close> takes the byte read from the canvas; \<open>Math.pow\<close> is \<open>powr\<close> on a positive base.\<close>

definition toLin :: "nat \<Rightarrow> real" where
  "toLin b =
     (let v = real b / 255
      in if v \<le> 0.04045 then v / 12.92 else ((v + 0.055) / 1.055) powr 2.4)"

definition pixel_L :: "nat \<Rightarrow> nat \<Rightarrow> nat \<Rightarrow> real" where
  "pixel_L r g b = 0.2126 * toLin r + 0.7152 * toLin g + 0.0722 * toLin b"

text \<open>
  The \<open>for\<close> loop over \<open>data\<close> in steps of four bytes; \<open>acc\<close> is the source's
  \<open>sum\<close> and \<open>gridsize\<close> its \<open>size\<close>. \<open>None\<close> stands for \<open>NaN\<close>, which the
  loop produces when it reads past the end of the array (never the case for the array of
  \<open>getImageData\<close>, whose length is a multiple of four).
\<close>

fun luminance_loop :: "nat list \<Rightarrow> real \<Rightarrow> real option" where
  "luminance_loop [] acc = Some acc"
| "luminance_loop [r] acc = None"
| "luminance_loop [r, g] acc = None"
| "luminance_loop [r, g, b] acc = Some (acc + pixel_L r g b)"
| "luminance_loop (r # g # b # a # rest) acc = luminance_loop rest (acc + pixel_L r g b)"

definition analyzeTone :: "nat \<Rightarrow> image \<Rightarrow> tone option" where
  "analyzeTone gridsize im =
     (case sampled im of
        NoContext \<Rightarrow> None
      | ReadThrows \<Rightarrow> None
      | ImageData data \<Rightarrow>
          (case luminance_loop data 0 of
             None \<Rightarrow> Some Dark
           | Some acc \<Rightarrow>
               (let n = gridsize * gridsize; avg = acc / real n
                in Some (if avg > 0.6 then Light else Dark))))"

definition analyzeTone_A :: "image \<Rightarrow> tone option" where
  "analyzeTone_A im = analyzeTone 32 im"

definition analyzeTone_B :: "bool \<Rightarrow> image \<Rightarrow> tone option" where
  "analyzeTone_B isMobile im = analyzeTone (if isMobile then 16 else 32) im"






subsection \<open>Page state\<close>

text \<open>
  The two background layers are the element \<open>#bgLayer\<close> of the page and the element
  \<open>#bgLayer2\<close> that \<open>ensureBgBuffers\<close> creates.
\<close>

datatype layer = BgLayer | BgLayer2

text \<open>
  A call of \<open>loadNextWithRetry\<close> whose promise is awaited: by \<open>updateBg\<close>
  (\<open>AwaitUpdate\<close>) or by the \<open>then\<close>/\<open>catch\<close> handlers of \<open>startProactivePreload\<close>
  (\<open>AwaitPreload\<close>). The list of them only grows; \<open>settled\<close> marks a promise that has
  resolved or rejected.
\<close>

datatype waiter = AwaitUpdate | AwaitPreload

record pending_load =
  waiting :: waiter
  settled :: bool

text \<open>
  What a call of \<open>crossfadeTo\<close> leaves behind in the browser: the closure variables
  \<open>oldPrimary\<close> and \<open>newPrimary\<close>, the element its completion handler listens on, whether
  the handler is still registered for \<open>transitionend\<close>, and whether the safety-net timeout
  is still pending. Variant B arms both only after an animation frame and a 10 ms
  timeout; variant A arms them at once.
\<close>

datatype stage = FramePending | DelayPending | Armed

record crossfade =
  oldPrimary :: layer
  newPrimary :: layer
  target :: layer
  stage :: stage
  listener :: bool
  timer :: bool

record page =
  bgLayer_present :: bool
  script_start :: nat
  isMobile :: bool
  isTablet :: bool
  bgPrimary :: "layer option"
  bgBuffer :: "layer option"
  switching :: bool
  queued :: bool
  preloaded :: "load_result option"
  backgroundImage :: "layer \<Rightarrow> string"
  fade :: "layer \<Rightarrow> bool"
  img_tone :: "string option"
  root_style :: "string \<rightharpoonup> string"
  root_classes :: "string set"
  body_classes :: "string set"
  storage :: "string \<rightharpoonup> string"
  loads :: "pending_load list"
  crossfades :: "crossfade list"

text \<open>
  \<open>bgLayer_present\<close>: \<open>getElementById('bgLayer')\<close> found the element. \<open>script_start\<close>:
  the clock when the script started, which \<open>FALLBACK_BG\<close> embeds. \<open>isMobile\<close>,
  \<open>isTablet\<close>: what the user-agent tests of variant B answer. \<open>fade\<close>: the class
  \<open>fade\<close> (hidden) on a layer. \<open>img_tone\<close>: the attribute \<open>data-img-tone\<close> of the body.
  \<open>root_style\<close>: the custom properties set on the document element. \<open>storage\<close>:
  \<open>localStorage\<close>.
\<close>

definition css_url :: "string \<Rightarrow> string" where
  "css_url u = ''url('' @ [CHR 0x27] @ u @ [CHR 0x27] @ '')''"

definition page0 :: "nat \<Rightarrow> page" where
  "page0 t0 =
     \<lparr>bgLayer_present = True, script_start = t0, isMobile = False, isTablet = False,
      bgPrimary = None, bgBuffer = None, switching = False, queued = False,
      preloaded = None, backgroundImage = (\<lambda>l. []), fade = (\<lambda>l. False),
      img_tone = None, root_style = Map.empty, root_classes = {}, body_classes = {},
      storage = Map.empty, loads = [], crossfades = []\<rparr>"

subsection \<open>Theme toggle: setTheme (both variants)\<close>



subsection \<open>Variant A: applyTone, ensureBgBuffers, startProactivePreload, crossfadeTo, updateBg\<close>

text \<open>The argument of \<open>applyTone\<close> is \<open>None\<close> for a falsy value.\<close>

definition applyTone_A :: "tone option \<Rightarrow> page \<Rightarrow> page" where
  "applyTone_A t s =
     (case t of
        None \<Rightarrow> s
      | Some tn \<Rightarrow>
          (let s = s\<lparr>img_tone := Some (tone_name tn)\<rparr>
           in if tn = Light then
                s\<lparr>root_style := (root_style s)(''--bg-overlay'' \<mapsto> ''0.28'',
                                                  ''--bg-overlay-light'' \<mapsto> ''0.16'')\<rparr>
              else
                s\<lparr>root_style := (root_style s)(''--bg-overlay'' \<mapsto> ''0.50'',
                                                  ''--bg-overlay-light'' \<mapsto> ''0.22'')\<rparr>))"

definition ensureBgBuffers :: "page \<Rightarrow> page" where
  "ensureBgBuffers s =
     (if \<not> bgLayer_present s then s
      else if bgPrimary s \<noteq> None then s
      else s\<lparr>bgPrimary := Some BgLayer, bgBuffer := Some BgLayer2,
             fade := (fade s)(BgLayer2 := True)\<rparr>)"

definition startProactivePreload :: "page \<Rightarrow> page" where
  "startProactivePreload s =
     (if preloaded s \<noteq> None then s
      else s\<lparr>loads := loads s @ [\<lparr>waiting = AwaitPreload, settled = False\<rparr>]\<rparr>)"

text \<open>\<open>tone || 'dark'\<close>.\<close>

definition tone_or_dark :: "tone option \<Rightarrow> tone" where
  "tone_or_dark t = (case t of None \<Rightarrow> Dark | Some tn \<Rightarrow> tn)"

definition crossfadeTo_A :: "load_result \<Rightarrow> page \<Rightarrow> page" where
  "crossfadeTo_A res s =
     (case bgPrimary s of
        None \<Rightarrow> s
      | Some p \<Rightarrow>
          (case bgBuffer s of
             None \<Rightarrow> s
           | Some b \<Rightarrow>
               (let s = s\<lparr>backgroundImage := (backgroundImage s)(b := css_url (url res))\<rparr>;
                    tn = analyzeTone_A (img res);
                    s = applyTone_A (Some (tone_or_dark tn)) s;
                    s = s\<lparr>fade := (fade s)(p := True)\<rparr>;
                    s = s\<lparr>fade := (fade s)(b := False)\<rparr>
                in s\<lparr>crossfades := crossfades s @
                       [\<lparr>oldPrimary = p, newPrimary = b, target = b, stage = Armed,
                         listener = True, timer = True\<rparr>]\<rparr>)))"

text \<open>
  \<open>updateBg\<close> up to its first \<open>await\<close>: with a preloaded image there is none and the
  crossfade starts in the same turn; otherwise a load is started and awaited.
\<close>

definition updateBg_A :: "page \<Rightarrow> page" where
  "updateBg_A s0 =
     (let s = ensureBgBuffers s0
      in if switching s then s\<lparr>queued := True\<rparr>
         else
           (let s = s\<lparr>switching := True\<rparr>
            in case preloaded s of
                 Some res \<Rightarrow> crossfadeTo_A res (s\<lparr>preloaded := None\<rparr>)
               | None \<Rightarrow> s\<lparr>loads := loads s @ [\<lparr>waiting = AwaitUpdate, settled = False\<rparr>]\<rparr>))"

text \<open>The rest of \<open>updateBg\<close>, run when the awaited load settles.\<close>

definition updateBg_resume_A :: "load_error + load_result \<Rightarrow> page \<Rightarrow> page" where
  "updateBg_resume_A r s =
     (case r of
        Inr res \<Rightarrow> crossfadeTo_A res (s\<lparr>preloaded := None\<rparr>)
      | Inl e \<Rightarrow>
          (let s = s\<lparr>switching := False\<rparr>;
               s = (case bgPrimary s of
                      None \<Rightarrow> s
                    | Some p \<Rightarrow>
                        s\<lparr>backgroundImage :=
                            (backgroundImage s)(p := css_url (FALLBACK_BG (script_start s))),
                          fade := (fade s)(p := False)\<rparr>)
           in startProactivePreload s))"

text \<open>The handlers of the promise in \<open>startProactivePreload\<close>.\<close>

definition preload_resume :: "load_error + load_result \<Rightarrow> page \<Rightarrow> page" where
  "preload_resume r s = (case r of Inr res \<Rightarrow> s\<lparr>preloaded := Some res\<rparr> | Inl e \<Rightarrow> s)"

text \<open>\<open>onDone\<close> of the \<open>c\<close>-th crossfade.\<close>

definition onDone_A :: "nat \<Rightarrow> page \<Rightarrow> page" where
  "onDone_A c s0 =
     (let cf = crossfades s0 ! c;
          s = s0\<lparr>crossfades := (crossfades s0)[c := cf\<lparr>listener := False\<rparr>]\<rparr>;
          s = s\<lparr>fade := (fade s)(oldPrimary cf := True)\<rparr>;
          s = s\<lparr>bgPrimary := Some (newPrimary cf)\<rparr>;
          s = s\<lparr>bgBuffer := Some (oldPrimary cf)\<rparr>;
          s = s\<lparr>switching := False\<rparr>;
          s = (if queued s then updateBg_A (s\<lparr>queued := False\<rparr>) else s);
          s = s\<lparr>preloaded := None\<rparr>
      in startProactivePreload s)"

subsection \<open>Events\<close>

text \<open>
  What the browser can do to the script between two turns: call \<open>updateBg\<close> (a tick
  of the interval timer or a click on the next-image button), settle the \<open>n\<close>-th awaited
  load with a result, dispatch \<open>transitionend\<close> at a layer, run the safety-net timeout of
  the \<open>c\<close>-th crossfade, and, in variant B, run the animation-frame callback and the
  10 ms timeout of the \<open>c\<close>-th crossfade. An event that has nothing to run (no such
  promise, timeout or callback pending) leaves the page as it is.
\<close>

datatype event =
    RequestSwap
  | LoadSettled nat "load_error + load_result"
  | TransitionEnd layer
  | TimerFire nat
  | Frame nat
  | DelayFire nat

definition settle :: "nat \<Rightarrow> page \<Rightarrow> page" where
  "settle n s = s\<lparr>loads := (loads s)[n := (loads s ! n)\<lparr>settled := True\<rparr>]\<rparr>"

definition clear_timer :: "nat \<Rightarrow> page \<Rightarrow> page" where
  "clear_timer c s = s\<lparr>crossfades := (crossfades s)[c := (crossfades s ! c)\<lparr>timer := False\<rparr>]\<rparr>"

text \<open>
  Dispatch of \<open>transitionend\<close> at layer \<open>l\<close>: the handlers registered on \<open>l\<close> when the
  dispatch starts run in the order of registration, unless removed in the meantime.
\<close>

fun dispatch_A :: "layer \<Rightarrow> nat list \<Rightarrow> page \<Rightarrow> page" where
  "dispatch_A l [] s = s"
| "dispatch_A l (c # cs) s =
     dispatch_A l cs
       (if listener (crossfades s ! c) \<and> target (crossfades s ! c) = l then onDone_A c s else s)"

definition step_A :: "event \<Rightarrow> page \<Rightarrow> page" where
  "step_A ev s =
     (case ev of
        RequestSwap \<Rightarrow> updateBg_A s
      | LoadSettled n r \<Rightarrow>
          (if n < length (loads s) \<and> \<not> settled (loads s ! n) then
             (case waiting (loads s ! n) of
                AwaitUpdate \<Rightarrow> updateBg_resume_A r (settle n s)
              | AwaitPreload \<Rightarrow> preload_resume r (settle n s))
           else s)
      | TransitionEnd l \<Rightarrow> dispatch_A l [0..<length (crossfades s)] s
      | TimerFire c \<Rightarrow>
          (if c < length (crossfades s) \<and> timer (crossfades s ! c) then
             (let s = clear_timer c s in if switching s then onDone_A c s else s)
           else s)
      | Frame c \<Rightarrow> s
      | DelayFire c \<Rightarrow> s)"

fun run_A :: "event list \<Rightarrow> page \<Rightarrow> page" where
  "run_A [] s = s"
| "run_A (ev # evs) s = run_A evs (step_A ev s)"

text \<open>
  \<open>initBg\<close> of variant A without the wiring of the controls (lines 329-331), which
  restores the saved interval and blur and touches none of the fields read below.
\<close>

definition initBg_A :: "page \<Rightarrow> page" where
  "initBg_A s0 =
     (if \<not> bgLayer_present s0 then s0
      else
        (let s = ensureBgBuffers s0;
             s = applyTone_A (Some Dark) s;
             s = updateBg_A s
         in startProactivePreload s))"

subsection \<open>Variant B: applyTone, crossfadeTo, updateBg\<close>

text \<open>
  Variant B defines neither \<open>ensureBgBuffers\<close> (its two calls are commented out) nor any
  other assignment to \<open>bgPrimary\<close> and \<open>bgBuffer\<close> outside the completion handler.
\<close>

definition applyTone_B :: "tone \<Rightarrow> page \<Rightarrow> page" where
  "applyTone_B tn s =
     s\<lparr>root_classes := insert (tone_name tn) (root_classes s - {''light'', ''dark''}),
       storage := (storage s)(''dove-theme'' \<mapsto> tone_name tn)\<rparr>"

definition crossfadeTo_B :: "load_result \<Rightarrow> page \<Rightarrow> page" where
  "crossfadeTo_B res s =
     (case bgPrimary s of
        None \<Rightarrow> s
      | Some p \<Rightarrow>
          (case bgBuffer s of
             None \<Rightarrow> s
           | Some b \<Rightarrow>
               (let s = s\<lparr>backgroundImage := (backgroundImage s)(b := css_url (url res))\<rparr>;
                    tn = analyzeTone_B (isMobile s) (img res);
                    s = applyTone_B (tone_or_dark tn) s;
                    s = s\<lparr>fade := (fade s)(b := False)\<rparr>
                in s\<lparr>crossfades := crossfades s @
                       [\<lparr>oldPrimary = p, newPrimary = b, target = p, stage = FramePending,
                         listener = False, timer = False\<rparr>]\<rparr>)))"

definition updateBg_B :: "page \<Rightarrow> page" where
  "updateBg_B s0 =
     (if switching s0 then s0\<lparr>queued := True\<rparr>
      else
        (let s = s0\<lparr>switching := True\<rparr>
         in case preloaded s of
              Some res \<Rightarrow> crossfadeTo_B res (s\<lparr>preloaded := None\<rparr>)
            | None \<Rightarrow> s\<lparr>loads := loads s @ [\<lparr>waiting = AwaitUpdate, settled = False\<rparr>]\<rparr>))"

definition updateBg_resume_B :: "load_error + load_result \<Rightarrow> page \<Rightarrow> page" where
  "updateBg_resume_B r s =
     (case r of
        Inr res \<Rightarrow> crossfadeTo_B res (s\<lparr>preloaded := None\<rparr>)
      | Inl e \<Rightarrow>
          (let s = s\<lparr>switching := False\<rparr>;
               s = (case bgPrimary s of
                      None \<Rightarrow> s
                    | Some p \<Rightarrow>
                        s\<lparr>backgroundImage :=
                            (backgroundImage s)(p := css_url (FALLBACK_BG (script_start s))),
                          fade := (fade s)(p := False)\<rparr>)
           in startProactivePreload s))"

text \<open>The callback of \<open>requestAnimationFrame\<close> and the 10 ms timeout inside it.\<close>

definition frame_B :: "nat \<Rightarrow> page \<Rightarrow> page" where
  "frame_B c s = s\<lparr>crossfades := (crossfades s)[c := (crossfades s ! c)\<lparr>stage := DelayPending\<rparr>]\<rparr>"

definition delay_B :: "nat \<Rightarrow> page \<Rightarrow> page" where
  "delay_B c s =
     (let cf = crossfades s ! c;
          s = s\<lparr>fade := (fade s)(oldPrimary cf := True)\<rparr>
      in s\<lparr>crossfades := (crossfades s)[c := cf\<lparr>stage := Armed, listener := True, timer := True\<rparr>]\<rparr>)"

definition onTransitionEnd_B :: "nat \<Rightarrow> page \<Rightarrow> page" where
  "onTransitionEnd_B c s0 =
     (let cf = crossfades s0 ! c;
          s = s0\<lparr>crossfades := (crossfades s0)[c := cf\<lparr>listener := False\<rparr>]\<rparr>;
          s = s\<lparr>fade := (fade s)(oldPrimary cf := True)\<rparr>;
          s = s\<lparr>bgPrimary := Some (newPrimary cf)\<rparr>;
          s = s\<lparr>bgBuffer := Some (oldPrimary cf)\<rparr>;
          s = s\<lparr>switching := False\<rparr>;
          s = (if queued s then updateBg_B (s\<lparr>queued := False\<rparr>) else s);
          s = s\<lparr>preloaded := None\<rparr>
      in startProactivePreload s)"

fun dispatch_B :: "layer \<Rightarrow> nat list \<Rightarrow> page \<Rightarrow> page" where
  "dispatch_B l [] s = s"
| "dispatch_B l (c # cs) s =
     dispatch_B l cs
       (if listener (crossfades s ! c) \<and> target (crossfades s ! c) = l
        then onTransitionEnd_B c s else s)"

definition step_B :: "event \<Rightarrow> page \<Rightarrow> page" where
  "step_B ev s =
     (case ev of
        RequestSwap \<Rightarrow> updateBg_B s
      | LoadSettled n r \<Rightarrow>
          (if n < length (loads s) \<and> \<not> settled (loads s ! n) then
             (case waiting (loads s ! n) of
                AwaitUpdate \<Rightarrow> updateBg_resume_B r (settle n s)
              | AwaitPreload \<Rightarrow> preload_resume r (settle n s))
           else s)
      | TransitionEnd l \<Rightarrow> dispatch_B l [0..<length (crossfades s)] s
      | TimerFire c \<Rightarrow>
          (if c < length (crossfades s) \<and> timer (crossfades s ! c) then
             (let s = clear_timer c s in if switching s then onTransitionEnd_B c s else s)
           else s)
      | Frame c \<Rightarrow>
          (if c < length (crossfades s) \<and> stage (crossfades s ! c) = FramePending
           then frame_B c s else s)
      | DelayFire c \<Rightarrow>
          (if c < length (crossfades s) \<and> stage (crossfades s ! c) = DelayPending
           then delay_B c s else s))"

fun run_B :: "event list \<Rightarrow> page \<Rightarrow> page" where
  "run_B [] s = s"
| "run_B (ev # evs) s = run_B evs (step_B ev s)"

text \<open>
  \<open>initBg\<close> of variant B, again without the wiring of the controls; the \<open>applyTone\<close> it
  declares and calls has the body of the outer one.
\<close>

definition initBg_B :: "page \<Rightarrow> page" where
  "initBg_B s0 =
     (if \<not> bgLayer_present s0 then s0
      else
        (let s = applyTone_B Dark s0;
             s = updateBg_B s
         in startProactivePreload s))"

subsection \<open>Blur setting: applyBgBlur\<close>

text \<open>
  The argument is \<open>None\<close> when \<open>Number(px)\<close> is \<open>NaN\<close>. Variant A has one declaration of
  \<open>applyBgBlur\<close>. The function body of variant B declares \<open>applyBgBlur\<close> twice, at line 644
  and at line 786; function declarations are bound when the scope is entered and the last
  one wins, so every call in variant B runs the declaration of line 786.
\<close>

definition blur_number :: "int option \<Rightarrow> int" where
  "blur_number px = max 0 (case px of None \<Rightarrow> 0 | Some v \<Rightarrow> v)"

definition set_blur :: "int \<Rightarrow> page \<Rightarrow> page" where
  "set_blur n s =
     s\<lparr>root_style := (root_style s)(''--bg-blur'' \<mapsto> string_of_nat (nat n) @ ''px''),
       storage := (storage s)(''dove-bg-blur'' \<mapsto> string_of_nat (nat n))\<rparr>"

definition applyBgBlur_A :: "int option \<Rightarrow> page \<Rightarrow> page" where
  "applyBgBlur_A px s = (let n = blur_number px in set_blur n s)"

text \<open>The declaration at line 644 of variant B.\<close>

definition applyBgBlur_B_line644 :: "int option \<Rightarrow> page \<Rightarrow> page" where
  "applyBgBlur_B_line644 px s =
     (let blurValue = blur_number px;
          blurValue = (if isMobile s then min blurValue 6
                       else if isTablet s then min blurValue 10
                       else blurValue)
      in set_blur blurValue s)"

text \<open>The declaration at line 786 of variant B, the one that \<open>applyBgBlur\<close> names.\<close>

definition applyBgBlur_B :: "int option \<Rightarrow> page \<Rightarrow> page" where
  "applyBgBlur_B px s = (let n = blur_number px in set_blur n s)"

text \<open>
  The \<open>change\<close> handler of the blur selector (both variants); the argument is the result
  of \<open>parseInt\<close>, \<open>None\<close> for \<open>NaN\<close>.
\<close>

definition bgBlur_change_B :: "int option \<Rightarrow> page \<Rightarrow> page" where
  "bgBlur_change_B val s = applyBgBlur_B (Some (case val of None \<Rightarrow> 12 | Some v \<Rightarrow> v)) s"

subsection \<open>Observations and sample inputs used in the statements below\<close>

text \<open>
  A crossfade is in flight from the call of \<open>crossfadeTo\<close> until its completion handler
  has run; in variant A the handler is registered for exactly that time.
\<close>

definition in_flight :: "page \<Rightarrow> nat" where
  "in_flight s = length (filter listener (crossfades s))"

definition awaiting :: "waiter \<Rightarrow> pending_load \<Rightarrow> bool" where
  "awaiting w l = (waiting l = w \<and> \<not> settled l)"

text \<open>Loads started by \<open>startProactivePreload\<close> that have not settled yet.\<close>

definition pending_preloads :: "page \<Rightarrow> nat" where
  "pending_preloads s = length (filter (awaiting AwaitPreload) (loads s))"

text \<open>
  Swaps begun: those whose crossfade has been started, and those still waiting for
  their image.
\<close>

definition swaps_begun :: "page \<Rightarrow> nat" where
  "swaps_begun s = length (crossfades s) + length (filter (awaiting AwaitUpdate) (loads s))"

text \<open>A desktop window in which no image load succeeds, and one in which the third does.\<close>

definition dead_world :: "nat \<Rightarrow> attempt_env" where
  "dead_world k =
     \<lparr>innerWidth = 1920, innerHeight = 1080, date_now = 1700000000000 + k,
      random_sig = 4711, response = None\<rparr>"

definition third_time_lucky :: "nat \<Rightarrow> attempt_env" where
  "third_time_lucky k =
     \<lparr>innerWidth = 1920, innerHeight = 1080, date_now = 1700000000000 + k,
      random_sig = 4711, response = (if k = 2 then Some (Image ReadThrows) else None)\<rparr>"

text \<open>An all-white image on the 32 x 32 grid, and an image whose pixels cannot be read.\<close>

definition white_image :: image where
  "white_image = Image (ImageData (replicate 4096 255))"

definition unreadable_image :: image where
  "unreadable_image = Image ReadThrows"

definition white_result :: load_result where
  "white_result = \<lparr>img = white_image, url = ''https://picsum.photos/1920/1080?random=1''\<rparr>"

definition unreadable_result :: load_result where
  "unreadable_result =
     \<lparr>img = unreadable_image, url = ''https://source.unsplash.com/random/1920x1080?wallpapers,landscape&sig=2''\<rparr>"

text \<open>
  The first swap of variant A completes by \<open>transitionend\<close> with a request queued and an
  image preloaded, the safety-net timeout of that first crossfade then fires, and a
  further request arrives once the next preload has settled.
\<close>

definition overlap_trace :: "event list" where
  "overlap_trace =
     [LoadSettled 0 (Inr unreadable_result), LoadSettled 1 (Inr unreadable_result), RequestSwap,
      TransitionEnd BgLayer2, TimerFire 0, LoadSettled 2 (Inr unreadable_result), RequestSwap]"

text \<open>
  The preload started by \<open>initBg\<close> succeeds while the load awaited by the first
  \<open>updateBg\<close> fails for every provider and for the fallback.
\<close>

definition cache_full_trace :: "event list" where
  "cache_full_trace =
     [LoadSettled 1 (Inr unreadable_result),
      LoadSettled 0 (outcome (loadNextWithRetry dead_world 0 0 None))]"

text \<open>A white image is shown, the swap completes, and the next image cannot be sampled.\<close>

definition tone_trace :: "event list" where
  "tone_trace =
     [LoadSettled 0 (Inr white_result), TransitionEnd BgLayer2, RequestSwap,
      LoadSettled 3 (Inr unreadable_result)]"


text \<open>
  A page of variant B on which no crossfade can ever start or complete: no layer is
  registered, the guard \<open>switching\<close> is set, and no \<open>updateBg\<close> awaits a load.
\<close>

definition wedged :: "page \<Rightarrow> bool" where
  "wedged s =
     (bgPrimary s = None \<and> bgBuffer s = None \<and> crossfades s = [] \<and> switching s \<and>
      filter (awaiting AwaitUpdate) (loads s) = [])"

text \<open>A page with both layers registered, and a phone.\<close>

definition buffered_page :: page where
  "buffered_page = (page0 0)\<lparr>bgPrimary := Some BgLayer, bgBuffer := Some BgLayer2\<rparr>"

definition phone_page :: page where
  "phone_page = (page0 0)\<lparr>isMobile := True\<rparr>"

section \<open>Properties\<close>

subsection \<open>Retry and fallback\<close>

lemma provider_loop_length:
  "length (attempts (provider_loop world t0 tries idx k tried)) \<le> length tried + nat tries + 1"
proof (induction world t0 tries idx k tried rule: provider_loop.induct)
  case (1 world t0 tries idx k tried)
  show ?case
  proof (cases "tries > 0")
    case False
    then show ?thesis
      by (subst provider_loop.simps) (simp split: option.splits)
  next
    case True
    show ?thesis
    proof (cases "response (world k)")
      case (Some i)
      with True show ?thesis
        by (subst provider_loop.simps) (simp split: prod.splits)
    next
      case None
      obtain u idx' where nu: "nextUrl (world k) idx = (u, idx')"
        by (cases "nextUrl (world k) idx")
      have "length (attempts (provider_loop world t0 (tries - 1) idx' (Suc k) (tried @ [u])))
              \<le> length (tried @ [u]) + nat (tries - 1) + 1"
        using "1.IH" [OF True refl refl nu [symmetric] None] .
      with True None nu show ?thesis
        by (subst provider_loop.simps) (simp add: nat_diff_distrib)
    qed
  qed
qed

lemma provider_loop_exhausted:
  "0 \<le> tries \<Longrightarrow> (\<forall>j < nat tries. response (world (k + j)) = None) \<Longrightarrow>
   outcome (provider_loop world t0 tries idx k tried) =
     (case response (world (k + nat tries)) of
        Some i \<Rightarrow> Inr \<lparr>img = i, url = FALLBACK_BG t0\<rparr>
      | None \<Rightarrow> Inl AllProvidersFailed) \<and>
   attempts (provider_loop world t0 tries idx k tried) =
     tried @ provider_urls world idx k (nat tries) @ [FALLBACK_BG t0]"
proof (induction world t0 tries idx k tried rule: provider_loop.induct)
  case (1 world t0 tries idx k tried)
  show ?case
  proof (cases "tries > 0")
    case False
    with "1.prems" have "tries = 0" by simp
    then show ?thesis
      by (subst (1 2) provider_loop.simps) (simp split: option.splits)
  next
    case True
    obtain u idx' where nu: "nextUrl (world k) idx = (u, idx')"
      by (cases "nextUrl (world k) idx")
    from True "1.prems" have none: "response (world k) = None"
      by (metis add.right_neutral zero_less_nat_eq)
    have nt: "nat tries = Suc (nat (tries - 1))" using True by simp
    have rest: "\<forall>j < nat (tries - 1). response (world (Suc k + j)) = None"
      using "1.prems"(2) nt by auto
    have ih: "outcome (provider_loop world t0 (tries - 1) idx' (Suc k) (tried @ [u])) =
       (case response (world (Suc k + nat (tries - 1))) of
          Some i \<Rightarrow> Inr \<lparr>img = i, url = FALLBACK_BG t0\<rparr>
        | None \<Rightarrow> Inl AllProvidersFailed) \<and>
      attempts (provider_loop world t0 (tries - 1) idx' (Suc k) (tried @ [u])) =
        (tried @ [u]) @ provider_urls world idx' (Suc k) (nat (tries - 1)) @ [FALLBACK_BG t0]"
      using "1.IH" [OF True refl refl nu [symmetric] none _ rest] True by simp
    have unfold: "provider_loop world t0 tries idx k tried =
        provider_loop world t0 (tries - 1) idx' (Suc k) (tried @ [u])"
      using True none nu by (subst provider_loop.simps) simp
    show ?thesis
      using ih nt nu by (simp add: unfold)
  qed
qed

lemma provider_loop_first_success:
  "j < nat tries \<Longrightarrow> (\<forall>i < j. response (world (k + i)) = None) \<Longrightarrow>
   response (world (k + j)) = Some im \<Longrightarrow>
   outcome (provider_loop world t0 tries idx k tried) =
     Inr \<lparr>img = im, url = last (provider_urls world idx k (Suc j))\<rparr> \<and>
   attempts (provider_loop world t0 tries idx k tried) =
     tried @ provider_urls world idx k (Suc j)"
proof (induction world t0 tries idx k tried arbitrary: j rule: provider_loop.induct)
  case (1 world t0 tries idx k tried)
  from "1.prems"(1) have pos: "tries > 0" by simp
  obtain u idx' where nu: "nextUrl (world k) idx = (u, idx')"
    by (cases "nextUrl (world k) idx")
  show ?case
  proof (cases j)
    case 0
    with "1.prems"(3) have some: "response (world k) = Some im" by simp
    have "provider_loop world t0 tries idx k tried =
        \<lparr>outcome = Inr \<lparr>img = im, url = u\<rparr>, attempts = tried @ [u], cursor = idx'\<rparr>"
      using pos some nu by (subst provider_loop.simps) simp
    with 0 nu show ?thesis by simp
  next
    case (Suc j')
    with "1.prems"(2) have none: "response (world k) = None"
      by (metis add.right_neutral zero_less_Suc)
    have a: "j' < nat (tries - 1)" using "1.prems"(1) Suc by simp
    have b: "\<forall>i < j'. response (world (Suc k + i)) = None"
      using "1.prems"(2) Suc by auto
    have c: "response (world (Suc k + j')) = Some im" using "1.prems"(3) Suc by simp
    have unfold: "provider_loop world t0 tries idx k tried =
        provider_loop world t0 (tries - 1) idx' (Suc k) (tried @ [u])"
      using pos none nu by (subst provider_loop.simps) simp
    show ?thesis
      using "1.IH" [OF pos refl refl nu [symmetric] none a b c] Suc nu
      by (simp add: unfold)
  qed
qed

lemma length_provider_urls: "length (provider_urls world idx k n) = n"
  by (induction n arbitrary: idx k) simp_all

lemma initial_tries_positive: "1 \<le> initial_tries maxTries"
  by (simp add: initial_tries_def)

lemma initial_tries_Some: "1 \<le> k \<Longrightarrow> initial_tries (Some k) = k"
  by (simp add: initial_tries_def)

text \<open>
  C4. For every \<open>k \<ge> 1\<close>, \<open>loadNextWithRetry(k)\<close> returns (the function is total) after
  at most \<open>k + 1\<close> calls of \<open>preloadImage\<close>: it stops at the first provider attempt that
  succeeds, having asked providers only; when all \<open>k\<close> provider attempts fail it makes
  exactly one more attempt, for \<open>FALLBACK_BG\<close>; and it rejects if and only if the \<open>k\<close>
  provider attempts and that last attempt all fail.
\<close>

theorem loadNextWithRetry_attempt_bound:
  "1 \<le> k \<Longrightarrow>
   length (attempts (loadNextWithRetry world t0 idx (Some k))) \<le> nat k + 1 \<and>
   (\<forall>j im. j < nat k \<and> (\<forall>i < j. response (world i) = None) \<and> response (world j) = Some im \<longrightarrow>
      attempts (loadNextWithRetry world t0 idx (Some k)) = provider_urls world idx 0 (Suc j) \<and>
      outcome (loadNextWithRetry world t0 idx (Some k)) =
        Inr \<lparr>img = im, url = last (provider_urls world idx 0 (Suc j))\<rparr>) \<and>
   ((\<forall>i < nat k. response (world i) = None) \<longrightarrow>
      attempts (loadNextWithRetry world t0 idx (Some k)) =
        provider_urls world idx 0 (nat k) @ [FALLBACK_BG t0]) \<and>
   (outcome (loadNextWithRetry world t0 idx (Some k)) = Inl AllProvidersFailed \<longleftrightarrow>
      (\<forall>i \<le> nat k. response (world i) = None))"
proof -
  assume k: "1 \<le> k"
  let ?r = "loadNextWithRetry world t0 idx (Some k)"
  have run: "?r = provider_loop world t0 k idx 0 []"
    using k by (simp add: loadNextWithRetry_def initial_tries_Some)
  have bound: "length (attempts ?r) \<le> nat k + 1"
    using provider_loop_length [of world t0 k idx 0 "[]"] by (simp add: run)
  have first: "attempts ?r = provider_urls world idx 0 (Suc j) \<and>
      outcome ?r = Inr \<lparr>img = im, url = last (provider_urls world idx 0 (Suc j))\<rparr>"
    if "j < nat k" "\<forall>i < j. response (world i) = None" "response (world j) = Some im" for j im
    using provider_loop_first_success [of j k world 0 im t0 idx "[]"] that by (simp add: run)
  have exhausted: "outcome ?r = (case response (world (nat k)) of
        Some i \<Rightarrow> Inr \<lparr>img = i, url = FALLBACK_BG t0\<rparr> | None \<Rightarrow> Inl AllProvidersFailed) \<and>
      attempts ?r = provider_urls world idx 0 (nat k) @ [FALLBACK_BG t0]"
    if "\<forall>i < nat k. response (world i) = None"
    using provider_loop_exhausted [of k world 0 t0 idx "[]"] that k by (simp add: run)
  have fails: "outcome ?r = Inl AllProvidersFailed \<longleftrightarrow> (\<forall>i \<le> nat k. response (world i) = None)"
  proof
    assume all: "\<forall>i \<le> nat k. response (world i) = None"
    then have "\<forall>i < nat k. response (world i) = None" by simp
    from exhausted [OF this] all show "outcome ?r = Inl AllProvidersFailed" by simp
  next
    assume failed: "outcome ?r = Inl AllProvidersFailed"
    show "\<forall>i \<le> nat k. response (world i) = None"
    proof (rule ccontr)
      assume "\<not> (\<forall>i \<le> nat k. response (world i) = None)"
      then obtain i where i: "i \<le> nat k" "response (world i) \<noteq> None" by blast
      define j where "j = (LEAST i. response (world i) \<noteq> None)"
      have j: "response (world j) \<noteq> None" unfolding j_def using i(2) by (rule LeastI)
      have jle: "j \<le> i" unfolding j_def using i(2) by (rule Least_le)
      have before: "\<forall>m < j. response (world m) = None"
        unfolding j_def using not_less_Least by blast
      from j obtain im where im: "response (world j) = Some im" by blast
      show False
      proof (cases "j < nat k")
        case True
        from first [OF True before im] failed show False by simp
      next
        case False
        with jle i(1) have "j = nat k" by simp
        with exhausted before im failed show False by simp
      qed
    qed
  qed
  from bound first exhausted fails show ?thesis by blast
qed

theorem loadNextWithRetry_attempt_bound_witness:
  "(1::int) \<le> 3 \<and>
   length (attempts (loadNextWithRetry third_time_lucky 1700000000000 0 (Some 3))) = 3 \<and>
   outcome (loadNextWithRetry third_time_lucky 1700000000000 0 (Some 3)) \<noteq> Inl AllProvidersFailed \<and>
   length (attempts (loadNextWithRetry dead_world 1700000000000 0 (Some 3))) = 4 \<and>
   outcome (loadNextWithRetry dead_world 1700000000000 0 (Some 3)) = Inl AllProvidersFailed"
proof -
  have k: "(1::int) \<le> 3" by simp
  note lucky = loadNextWithRetry_attempt_bound [OF k, of third_time_lucky 1700000000000 0]
  note dead = loadNextWithRetry_attempt_bound [OF k, of dead_world 1700000000000 0]
  have "2 < nat 3 \<and> (\<forall>i < 2. response (third_time_lucky i) = None) \<and>
      response (third_time_lucky 2) = Some (Image ReadThrows)"
    by (simp add: third_time_lucky_def)
  with lucky have a: "attempts (loadNextWithRetry third_time_lucky 1700000000000 0 (Some 3)) =
      provider_urls third_time_lucky 0 0 (Suc 2)"
    and b: "outcome (loadNextWithRetry third_time_lucky 1700000000000 0 (Some 3)) \<noteq> Inl AllProvidersFailed"
    by (blast, fastforce)
  have d: "\<forall>i. response (dead_world i) = None" by (simp add: dead_world_def)
  with dead have c: "attempts (loadNextWithRetry dead_world 1700000000000 0 (Some 3)) =
      provider_urls dead_world 0 0 (nat 3) @ [FALLBACK_BG 1700000000000]"
    and e: "outcome (loadNextWithRetry dead_world 1700000000000 0 (Some 3)) = Inl AllProvidersFailed"
    by simp_all
  show ?thesis using a b c e by (simp add: length_provider_urls)
qed

lemma string_of_nat_1700000000000: "string_of_nat 1700000000000 = ''1700000000000''"
  by (simp add: string_of_nat.simps digit_char_def)

lemma FALLBACK_BG_prefix: "prefix ''https://picsum.photos/'' (FALLBACK_BG t0)"
  by (simp add: FALLBACK_BG_def)

lemma BG_PROVIDERS_0_prefix: "prefix ''https://picsum.photos/'' (BG_PROVIDERS 0 e w h)"
  by (simp add: BG_PROVIDERS_def)

text \<open>
  C8. When every provider attempt fails, the last attempt of \<open>loadNextWithRetry\<close> asks
  for \<open>FALLBACK_BG\<close>. That constant is not a path of a bundled asset: it is an
  \<open>https\<close> URL on \<open>picsum.photos\<close>, the host of the first provider.
\<close>

theorem fallback_attempt_is_remote:
  "(\<forall>i < nat (initial_tries maxTries). response (world i) = None) \<Longrightarrow>
   last (attempts (loadNextWithRetry world t0 idx maxTries)) = FALLBACK_BG t0 \<and>
   FALLBACK_BG t0 = ''https://picsum.photos/1280/1264?random='' @ string_of_nat t0 \<and>
   prefix ''https://picsum.photos/'' (FALLBACK_BG t0) \<and>
   prefix ''https://picsum.photos/'' (BG_PROVIDERS 0 e w h)"
  using provider_loop_exhausted [of "initial_tries maxTries" world 0 t0 idx "[]"]
    initial_tries_positive [of maxTries]
  by (simp add: loadNextWithRetry_def FALLBACK_BG_prefix BG_PROVIDERS_0_prefix) (simp add: FALLBACK_BG_def)

theorem fallback_attempt_is_remote_witness:
  "initial_tries None = 2 \<and>
   response (dead_world 0) = None \<and> response (dead_world 1) = None \<and>
   last (attempts (loadNextWithRetry dead_world 1700000000000 0 None)) =
     ''https://picsum.photos/1280/1264?random=1700000000000''"
  using fallback_attempt_is_remote [of None dead_world 1700000000000 0]
  by (simp add: dead_world_def string_of_nat_1700000000000 initial_tries_def
      BG_PROVIDERS_length_def)

subsection \<open>Tone analysis\<close>






subsection \<open>Single-flight guard and coalescing (variant A)\<close>

lemmas variant_A_defs =
  initBg_A_def page0_def ensureBgBuffers_def applyTone_A_def updateBg_A_def
  startProactivePreload_def step_A_def settle_def updateBg_resume_A_def preload_resume_def
  crossfadeTo_A_def onDone_A_def clear_timer_def tone_or_dark_def


lemma ensureBgBuffers_fields [simp]:
  "switching (ensureBgBuffers s) = switching s"
  "queued (ensureBgBuffers s) = queued s"
  "preloaded (ensureBgBuffers s) = preloaded s"
  "loads (ensureBgBuffers s) = loads s"
  "crossfades (ensureBgBuffers s) = crossfades s"
  by (simp_all add: ensureBgBuffers_def)




lemma swaps_begun_queued [simp]: "swaps_begun (s\<lparr>queued := b\<rparr>) = swaps_begun s"
  by (simp add: swaps_begun_def)

lemma swaps_begun_ensure [simp]: "swaps_begun (ensureBgBuffers s) = swaps_begun s"
  by (simp add: swaps_begun_def)


lemma onDone_A_not_queued:
  assumes "c < length (crossfades s)" and "\<not> queued s"
  shows "\<not> switching (onDone_A c s) \<and> \<not> queued (onDone_A c s) \<and>
         swaps_begun (onDone_A c s) = swaps_begun s \<and>
         bgPrimary (onDone_A c s) = Some (newPrimary (crossfades s ! c)) \<and>
         bgBuffer (onDone_A c s) = Some (oldPrimary (crossfades s ! c))"
  using assms
  by (simp add: onDone_A_def startProactivePreload_def swaps_begun_def awaiting_def Let_def)

text \<open>
  C1. In variant A the completion handler of a crossfade does not cancel its safety-net
  timeout, and the timeout tests only \<open>switching\<close>. After the first swap has completed
  by \<open>transitionend\<close> and a queued swap has begun its crossfade (one in flight), the
  timeout of the first crossfade runs the first handler again and clears \<open>switching\<close>
  while that crossfade is still in flight; the next request then starts another
  crossfade, so that two are in flight.
\<close>

theorem stale_timer_overlaps_crossfades:
  "switching (run_A (take 4 overlap_trace) (initBg_A (page0 0))) \<and>
   in_flight (run_A (take 4 overlap_trace) (initBg_A (page0 0))) = 1 \<and>
   \<not> switching (run_A (take 5 overlap_trace) (initBg_A (page0 0))) \<and>
   in_flight (run_A (take 5 overlap_trace) (initBg_A (page0 0))) = 1 \<and>
   switching (run_A overlap_trace (initBg_A (page0 0))) \<and>
   in_flight (run_A overlap_trace (initBg_A (page0 0))) = 2"
  by (simp add: overlap_trace_def in_flight_def unreadable_result_def unreadable_image_def
      variant_A_defs analyzeTone_A_def analyzeTone_def Let_def upt_rec)



subsection \<open>Completion of a swap\<close>

text \<open>
  In variant A the safety-net timeout of a crossfade, when it finds \<open>switching\<close> set,
  runs the completion handler: with nothing queued the page is idle afterwards and the
  layers have swapped roles.
\<close>

lemma safety_net_completes_A:
  assumes "c < length (crossfades s)" and "timer (crossfades s ! c)" and "switching s"
    and "\<not> queued s"
  shows "\<not> switching (step_A (TimerFire c) s) \<and>
         bgPrimary (step_A (TimerFire c) s) = Some (newPrimary (crossfades s ! c)) \<and>
         bgBuffer (step_A (TimerFire c) s) = Some (oldPrimary (crossfades s ! c))"
proof -
  have step: "step_A (TimerFire c) s = onDone_A c (clear_timer c s)"
    using assms(1-3) by (simp add: step_A_def clear_timer_def Let_def)
  have len: "c < length (crossfades (clear_timer c s))" and q: "\<not> queued (clear_timer c s)"
    using assms(1,4) by (simp_all add: clear_timer_def)
  from onDone_A_not_queued [OF len q] assms(1) show ?thesis
    by (simp add: step clear_timer_def)
qed

lemma filter_update_empty:
  "filter P xs = [] \<Longrightarrow> \<not> P x \<Longrightarrow> filter P (xs[n := x]) = []"
  by (auto simp: filter_empty_conv dest: set_update_subset_insert [THEN subsetD])

lemma wedged_no_update_waiter:
  assumes "wedged s" and "n < length (loads s)" and "\<not> settled (loads s ! n)"
  shows "waiting (loads s ! n) = AwaitPreload"
proof (rule ccontr)
  assume "waiting (loads s ! n) \<noteq> AwaitPreload"
  then have "waiting (loads s ! n) = AwaitUpdate" by (cases "waiting (loads s ! n)") auto
  with assms(3) have "awaiting AwaitUpdate (loads s ! n)" by (simp add: awaiting_def)
  with assms(2) have "loads s ! n \<in> set (filter (awaiting AwaitUpdate) (loads s))" by simp
  with assms(1) show False by (simp add: wedged_def)
qed

lemma wedged_step_B: "wedged s \<Longrightarrow> wedged (step_B ev s)"
proof (cases ev)
  case RequestSwap
  assume "wedged s"
  then show ?thesis using RequestSwap by (simp add: step_B_def updateBg_B_def wedged_def)
next
  case (LoadSettled n r)
  assume w: "wedged s"
  show ?thesis
  proof (cases "n < length (loads s) \<and> \<not> settled (loads s ! n)")
    case False
    with w LoadSettled show ?thesis by (auto simp: step_B_def)
  next
    case True
    with w have pre: "waiting (loads s ! n) = AwaitPreload"
      by (simp add: wedged_no_update_waiter)
    have "filter (awaiting AwaitUpdate) ((loads s)[n := (loads s ! n)\<lparr>settled := True\<rparr>]) = []"
      using w by (intro filter_update_empty) (simp_all add: wedged_def awaiting_def)
    with w True pre LoadSettled show ?thesis
      by (cases r) (simp_all add: step_B_def preload_resume_def settle_def wedged_def)
  qed
next
  case (TransitionEnd l)
  assume "wedged s"
  then show ?thesis using TransitionEnd by (simp add: step_B_def wedged_def)
next
  case (TimerFire c)
  assume "wedged s"
  then show ?thesis using TimerFire by (simp add: step_B_def wedged_def)
next
  case (Frame c)
  assume "wedged s"
  then show ?thesis using Frame by (simp add: step_B_def wedged_def)
next
  case (DelayFire c)
  assume "wedged s"
  then show ?thesis using DelayFire by (simp add: step_B_def wedged_def)
qed

lemma wedged_run_B: "wedged s \<Longrightarrow> wedged (run_B evs s)"
  by (induction evs arbitrary: s) (simp_all add: wedged_step_B)

lemma first_swap_wedges_B: "wedged (step_B (LoadSettled 0 (Inr res)) (initBg_B (page0 t0)))"
  by (simp add: wedged_def step_B_def initBg_B_def page0_def applyTone_B_def updateBg_B_def
      startProactivePreload_def settle_def updateBg_resume_B_def crossfadeTo_B_def awaiting_def)

text \<open>
  C2. In variant B nothing registers the two layers, so \<open>crossfadeTo\<close> returns at its
  first line without installing a completion handler or a timeout. The first swap sets
  \<open>switching\<close>; once its load has succeeded, \<open>switching\<close> stays set whatever happens
  afterwards, and no crossfade and no primary layer ever exist.
\<close>

theorem variant_B_swap_never_completes:
  "switching (initBg_B (page0 t0)) \<and>
   switching (run_B evs (step_B (LoadSettled 0 (Inr res)) (initBg_B (page0 t0)))) \<and>
   crossfades (run_B evs (step_B (LoadSettled 0 (Inr res)) (initBg_B (page0 t0)))) = [] \<and>
   bgPrimary (run_B evs (step_B (LoadSettled 0 (Inr res)) (initBg_B (page0 t0)))) = None"
  using wedged_run_B [OF first_swap_wedges_B, of evs res t0]
  by (simp add: wedged_def initBg_B_def updateBg_B_def applyTone_B_def page0_def
      startProactivePreload_def)

subsection \<open>Total failure of a load\<close>

lemma dead_world_fails:
  "outcome (loadNextWithRetry dead_world t0 idx maxTries) = Inl AllProvidersFailed"
  using provider_loop_exhausted [of "initial_tries maxTries" dead_world 0 t0 idx "[]"]
    initial_tries_positive [of maxTries]
  by (simp add: loadNextWithRetry_def dead_world_def)

text \<open>
  In variant A, when the preload started by \<open>initBg\<close> has filled the cache and the load
  awaited by \<open>updateBg\<close> then fails for every provider and the fallback, the \<open>catch\<close>
  branch starts no load: \<open>startProactivePreload\<close> returns at its guard.
\<close>

theorem exhaustion_with_full_cache_schedules_no_refill:
  "outcome (loadNextWithRetry dead_world 0 0 None) = Inl AllProvidersFailed \<and>
   length (loads (run_A (take 1 cache_full_trace) (initBg_A (page0 0)))) = 2 \<and>
   pending_preloads (run_A (take 1 cache_full_trace) (initBg_A (page0 0))) = 0 \<and>
   length (loads (run_A cache_full_trace (initBg_A (page0 0)))) = 2 \<and>
   pending_preloads (run_A cache_full_trace (initBg_A (page0 0))) = 0 \<and>
   \<not> switching (run_A cache_full_trace (initBg_A (page0 0)))"
  by (simp add: cache_full_trace_def dead_world_fails pending_preloads_def awaiting_def
      unreadable_result_def variant_A_defs Let_def)

lemma filter_update_same:
  "n < length xs \<Longrightarrow> \<not> P (xs ! n) \<Longrightarrow> \<not> P x \<Longrightarrow> filter P (xs[n := x]) = filter P xs"
proof (induction xs arbitrary: n)
  case Nil
  then show ?case by simp
next
  case (Cons a xs)
  then show ?case by (cases n) simp_all
qed

lemma pending_preloads_settle_update:
  "n < length (loads s) \<Longrightarrow> waiting (loads s ! n) = AwaitUpdate \<Longrightarrow>
   filter (awaiting AwaitPreload) ((loads s)[n := (loads s ! n)\<lparr>settled := True\<rparr>]) =
   filter (awaiting AwaitPreload) (loads s)"
  by (rule filter_update_same) (simp_all add: awaiting_def)

text \<open>
  C5, as amended. In variant A, when the load awaited by \<open>updateBg\<close> fails for every
  provider and for the fallback, the step that handles the rejection returns a page (no
  exception leaves \<open>updateBg\<close>) on which no crossfade has been started, \<open>switching\<close> is
  clear, the registered primary layer (if any) shows \<open>FALLBACK_BG\<close> with the class
  \<open>fade\<close> removed, and a preload has been started exactly when no preloaded image is
  held; the next call of \<open>updateBg\<close> begins a swap.
\<close>

theorem exhaustion_degrades_to_fallback:
  assumes "n < length (loads s)" and "\<not> settled (loads s ! n)"
    and "waiting (loads s ! n) = AwaitUpdate"
    and "\<forall>i \<le> nat (initial_tries maxTries). response (world i) = None"
    and "r = outcome (loadNextWithRetry world (script_start s) idx maxTries)"
  shows "r = Inl AllProvidersFailed \<and>
         crossfades (step_A (LoadSettled n r) s) = crossfades s \<and>
         \<not> switching (step_A (LoadSettled n r) s) \<and>
         bgPrimary (step_A (LoadSettled n r) s) = bgPrimary s \<and>
         (\<forall>p. bgPrimary s = Some p \<longrightarrow>
            backgroundImage (step_A (LoadSettled n r) s) p = css_url (FALLBACK_BG (script_start s)) \<and>
            \<not> fade (step_A (LoadSettled n r) s) p) \<and>
         preloaded (step_A (LoadSettled n r) s) = preloaded s \<and>
         pending_preloads (step_A (LoadSettled n r) s) =
           pending_preloads s + (if preloaded s = None then 1 else 0) \<and>
         switching (step_A RequestSwap (step_A (LoadSettled n r) s))"
proof -
  have all: "\<forall>i < nat (initial_tries maxTries). response (world i) = None"
    using assms(4) by simp
  have r: "r = Inl AllProvidersFailed"
    using provider_loop_exhausted [of "initial_tries maxTries" world 0 "script_start s" idx "[]"]
      initial_tries_positive [of maxTries] all assms(4,5)
    by (simp add: loadNextWithRetry_def)
  have step: "step_A (LoadSettled n r) s = updateBg_resume_A (Inl AllProvidersFailed) (settle n s)"
    using assms(1-3) r by (simp add: step_A_def)
  note pp = pending_preloads_settle_update [OF assms(1) assms(3)]
  show ?thesis
    unfolding step
    using r pp
    by (cases "bgPrimary s"; cases "preloaded s")
       (simp_all add: updateBg_resume_A_def settle_def startProactivePreload_def
          pending_preloads_def awaiting_def step_A_def updateBg_A_def ensureBgBuffers_def
          crossfadeTo_A_def applyTone_A_def Let_def split: option.splits)
qed

theorem exhaustion_degrades_to_fallback_witness:
  "0 < length (loads (initBg_A (page0 0))) \<and>
   \<not> settled (loads (initBg_A (page0 0)) ! 0) \<and>
   waiting (loads (initBg_A (page0 0)) ! 0) = AwaitUpdate \<and>
   response (dead_world 0) = None \<and> response (dead_world 1) = None \<and>
   response (dead_world 2) = None \<and>
   bgPrimary (initBg_A (page0 0)) = Some BgLayer \<and>
   \<not> switching (step_A (LoadSettled 0 (Inl AllProvidersFailed)) (initBg_A (page0 0))) \<and>
   backgroundImage (step_A (LoadSettled 0 (Inl AllProvidersFailed)) (initBg_A (page0 0))) BgLayer =
     css_url (FALLBACK_BG 0) \<and>
   pending_preloads (step_A (LoadSettled 0 (Inl AllProvidersFailed)) (initBg_A (page0 0))) = 2"
proof -
  let ?s = "initBg_A (page0 0)"
  have a: "0 < length (loads ?s)" and b: "\<not> settled (loads ?s ! 0)"
    and c: "waiting (loads ?s ! 0) = AwaitUpdate" and p: "bgPrimary ?s = Some BgLayer"
    and t: "script_start ?s = 0" and pre: "preloaded ?s = None" and pp: "pending_preloads ?s = 1"
    by (simp_all add: variant_A_defs pending_preloads_def awaiting_def Let_def)
  have d: "\<forall>i \<le> nat (initial_tries None). response (dead_world i) = None"
    by (simp add: dead_world_def)
  have e: "Inl AllProvidersFailed = outcome (loadNextWithRetry dead_world (script_start ?s) 0 None)"
    by (simp add: dead_world_fails)
  note inst = exhaustion_degrades_to_fallback [OF a b c d e]
  have f: "\<not> switching (step_A (LoadSettled 0 (Inl AllProvidersFailed)) ?s)"
    using inst by (elim conjE) assumption
  have g: "\<forall>p. bgPrimary ?s = Some p \<longrightarrow>
      backgroundImage (step_A (LoadSettled 0 (Inl AllProvidersFailed)) ?s) p =
        css_url (FALLBACK_BG (script_start ?s)) \<and>
      \<not> fade (step_A (LoadSettled 0 (Inl AllProvidersFailed)) ?s) p"
    using inst by (elim conjE) assumption
  have h: "pending_preloads (step_A (LoadSettled 0 (Inl AllProvidersFailed)) ?s) =
      pending_preloads ?s + (if preloaded ?s = None then 1 else 0)"
    using inst by (elim conjE) assumption
  from g p t have g': "backgroundImage (step_A (LoadSettled 0 (Inl AllProvidersFailed)) ?s) BgLayer =
      css_url (FALLBACK_BG 0)" by simp
  show ?thesis using a b c p f g' h pre pp by (simp add: dead_world_def)
qed

subsection \<open>Tone on analysis failure\<close>

lemma pixel_L_white: "pixel_L 255 255 255 = 1"
  by (simp add: pixel_L_def toLin_def Let_def)

lemma luminance_loop_white:
  "luminance_loop (replicate (4 * n) 255) acc = Some (acc + real n)"
proof (induction n arbitrary: acc)
  case 0
  then show ?case by simp
next
  case (Suc n)
  have "replicate (4 * Suc n) (255::nat) = 255 # 255 # 255 # 255 # replicate (4 * n) 255"
    by (simp add: numeral_eq_Suc)
  then show ?case by (simp add: Suc pixel_L_white)
qed

lemma analyzeTone_white: "analyzeTone 32 white_image = Some Light"
  using luminance_loop_white [of 1024 0]
  by (simp add: analyzeTone_def white_image_def Let_def)

lemma analyzeTone_A_white: "analyzeTone_A white_image = Some Light"
  by (simp add: analyzeTone_A_def analyzeTone_white)

lemma analyzeTone_A_unreadable: "analyzeTone_A unreadable_image = None"
  by (simp add: analyzeTone_A_def analyzeTone_def unreadable_image_def)

lemma analyzeTone_fails_any_grid:
  "analyzeTone g im = None \<Longrightarrow> analyzeTone g' im = None"
  by (simp add: analyzeTone_def Let_def split: canvas_read.splits option.splits)

text \<open>
  In variant A, after a white image has been classified \<open>light\<close> and shown, a swap to
  an image whose pixels cannot be read sets the tone attribute and the overlay variables
  to the values of \<open>dark\<close>: the earlier classification is not kept.
\<close>

theorem failed_analysis_resets_light_to_dark:
  "img_tone (run_A (take 3 tone_trace) (initBg_A (page0 0))) = Some ''light'' \<and>
   root_style (run_A (take 3 tone_trace) (initBg_A (page0 0))) ''--bg-overlay'' = Some ''0.28'' \<and>
   analyzeTone_A (img unreadable_result) = None \<and>
   img_tone (run_A tone_trace (initBg_A (page0 0))) = Some ''dark'' \<and>
   root_style (run_A tone_trace (initBg_A (page0 0))) ''--bg-overlay'' = Some ''0.50''"
  by (simp add: tone_trace_def white_result_def unreadable_result_def analyzeTone_A_white
      analyzeTone_A_unreadable variant_A_defs tone_name_def Let_def upt_rec)

text \<open>
  C7, as amended. Whenever tone analysis fails during a swap, \<open>crossfadeTo\<close> applies
  the tone \<open>dark\<close>, whatever tone was applied before: variant A sets the tone attribute
  and the overlay variables of \<open>dark\<close>, variant B the class \<open>dark\<close> and the stored theme
  \<open>dark\<close>. The swap goes on: the image is put on the buffer layer and the crossfade is
  started, and on its completion the layers swap roles.
\<close>

theorem failed_analysis_applies_dark:
  assumes "analyzeTone_A (img res) = None" and "bgPrimary s = Some p" and "bgBuffer s = Some b"
  shows "img_tone (crossfadeTo_A res s) = Some ''dark'' \<and>
         root_style (crossfadeTo_A res s) ''--bg-overlay'' = Some ''0.50'' \<and>
         root_style (crossfadeTo_A res s) ''--bg-overlay-light'' = Some ''0.22'' \<and>
         backgroundImage (crossfadeTo_A res s) b = css_url (url res) \<and>
         crossfades (crossfadeTo_A res s) =
           crossfades s @ [\<lparr>oldPrimary = p, newPrimary = b, target = b, stage = Armed,
                             listener = True, timer = True\<rparr>] \<and>
         bgPrimary (onDone_A (length (crossfades s)) (crossfadeTo_A res s)) = Some b \<and>
         bgBuffer (onDone_A (length (crossfades s)) (crossfadeTo_A res s)) = Some p \<and>
         storage (crossfadeTo_B res s) ''dove-theme'' = Some ''dark'' \<and>
         ''dark'' \<in> root_classes (crossfadeTo_B res s) \<and>
         ''light'' \<notin> root_classes (crossfadeTo_B res s) \<and>
         backgroundImage (crossfadeTo_B res s) b = css_url (url res) \<and>
         length (crossfades (crossfadeTo_B res s)) = Suc (length (crossfades s))"
proof -
  have B: "analyzeTone_B (isMobile s) (img res) = None"
    using assms(1) unfolding analyzeTone_A_def analyzeTone_B_def
    by (rule analyzeTone_fails_any_grid)
  show ?thesis
    using assms B
    by (simp add: crossfadeTo_A_def applyTone_A_def tone_or_dark_def tone_name_def Let_def
        onDone_A_def updateBg_A_def ensureBgBuffers_def startProactivePreload_def
        crossfadeTo_B_def applyTone_B_def split: option.splits)
qed

theorem failed_analysis_applies_dark_witness:
  "analyzeTone_A (img unreadable_result) = None \<and>
   bgPrimary buffered_page = Some BgLayer \<and> bgBuffer buffered_page = Some BgLayer2 \<and>
   img_tone (crossfadeTo_A unreadable_result buffered_page) = Some ''dark'' \<and>
   storage (crossfadeTo_B unreadable_result buffered_page) ''dove-theme'' = Some ''dark''"
proof -
  have a: "analyzeTone_A (img unreadable_result) = None"
    by (simp add: unreadable_result_def analyzeTone_A_unreadable)
  have p: "bgPrimary buffered_page = Some BgLayer" and b: "bgBuffer buffered_page = Some BgLayer2"
    by (simp_all add: buffered_page_def)
  note inst = failed_analysis_applies_dark [OF a p b]
  have c: "img_tone (crossfadeTo_A unreadable_result buffered_page) = Some ''dark''"
    using inst by (elim conjE) assumption
  have d: "storage (crossfadeTo_B unreadable_result buffered_page) ''dove-theme'' = Some ''dark''"
    using inst by (elim conjE) assumption
  show ?thesis using a p b c d by simp
qed

subsection \<open>Blur ceiling\<close>

lemma string_of_nat_12: "string_of_nat 12 = ''12''"
  by (simp add: string_of_nat.simps digit_char_def)

lemma string_of_nat_6: "string_of_nat 6 = ''6''"
  by (simp add: string_of_nat.simps digit_char_def)

text \<open>
  C9. On a phone, choosing 12 in the blur selector of variant B sets \<open>--bg-blur\<close> to
  \<open>12px\<close> and stores 12: the declaration of \<open>applyBgBlur\<close> that caps the value at 6 on
  phones (line 644) is replaced by the later declaration without a cap (line 786).
  Variant A has no cap either.
\<close>

theorem blur_ceiling_shadowed:
  "isMobile s \<Longrightarrow>
   root_style (bgBlur_change_B (Some 12) s) ''--bg-blur'' = Some ''12px'' \<and>
   storage (bgBlur_change_B (Some 12) s) ''dove-bg-blur'' = Some ''12'' \<and>
   root_style (applyBgBlur_B_line644 (Some 12) s) ''--bg-blur'' = Some ''6px'' \<and>
   root_style (applyBgBlur_A (Some 12) s) ''--bg-blur'' = Some ''12px''"
  by (simp add: bgBlur_change_B_def applyBgBlur_B_def applyBgBlur_B_line644_def applyBgBlur_A_def
      blur_number_def set_blur_def string_of_nat_12 string_of_nat_6 Let_def)

theorem blur_ceiling_shadowed_witness:
  "isMobile phone_page \<and>
   root_style (bgBlur_change_B (Some 12) phone_page) ''--bg-blur'' = Some ''12px'' \<and>
   storage (bgBlur_change_B (Some 12) phone_page) ''dove-bg-blur'' = Some ''12''"
proof -
  have m: "isMobile phone_page" by (simp add: phone_page_def)
  from blur_ceiling_shadowed [OF m] m show ?thesis by simp
qed

subsection \<open>Theme storage in variant B\<close>




end
